theory Spec2Isabelle
  imports Main "HOL-Library.Sublist"
begin

section \<open>Python values, dictionaries and strings\<close>

text \<open>
  The program of \<^verbatim>\<open>transaction_security.py\<close> works on plain Python dictionaries
  with string keys. A dictionary is a map from keys to values, and a value is one of the
  kinds the mock data and \<^verbatim>\<open>TransactionModel\<close> use. A float is carried as the text
  \<^verbatim>\<open>str()\<close> gives for it (\<^verbatim>\<open>1200.0\<close>), since the program only ever formats
  amounts into messages. A string is a list of characters with code points 0..255.
\<close>

datatype pyval =
    PNone
  | PBool bool
  | PStr string
  | PFloat string
  | PList "pyval list"

type_synonym pydict = "string \<rightharpoonup> pyval"

datatype error =
    KeyError string
  | TypeError
  | AttributeError
  | EOFError
  | NoMatchingEvent

text \<open>\<^verbatim>\<open>d[k]\<close> raises KeyError on a missing key; \<^verbatim>\<open>d.get(k, default)\<close> does not.\<close>

definition getitem :: "pydict \<Rightarrow> string \<Rightarrow> error + pyval" where
  "getitem d k = (case d k of None \<Rightarrow> Inl (KeyError k) | Some v \<Rightarrow> Inr v)"

definition get_default :: "pydict \<Rightarrow> string \<Rightarrow> pyval \<Rightarrow> pyval" where
  "get_default d k dflt = (case d k of None \<Rightarrow> dflt | Some v \<Rightarrow> v)"

text \<open>Truth value of an object, as \<^verbatim>\<open>if x:\<close> takes it.\<close>

fun truthy :: "pyval \<Rightarrow> bool" where
  "truthy PNone = False"
| "truthy (PBool b) = b"
| "truthy (PStr s) = (s \<noteq> [])"
| "truthy (PFloat r) = (r \<noteq> ''0.0'' \<and> r \<noteq> ''-0.0'')"
| "truthy (PList xs) = (xs \<noteq> [])"

fun is_str :: "pyval \<Rightarrow> bool" where
  "is_str (PStr s) = True"
| "is_str v = False"

text \<open>
  \<^verbatim>\<open>', '.join(x)\<close> needs an iterable of strings (a string iterates over its
  characters); a list comprehension over \<^verbatim>\<open>x\<close> needs an iterable. Only the error
  matters here: the joined text is printed or put into an unused prompt.
\<close>

fun join_check :: "pyval \<Rightarrow> error + unit" where
  "join_check (PList xs) = (if list_all is_str xs then Inr () else Inl TypeError)"
| "join_check (PStr s) = Inr ()"
| "join_check v = Inl TypeError"

fun iter_check :: "pyval \<Rightarrow> error + unit" where
  "iter_check (PList xs) = Inr ()"
| "iter_check (PStr s) = Inr ()"
| "iter_check v = Inl TypeError"

text \<open>\<^verbatim>\<open>x.upper()\<close> exists on strings only; its result is only printed.\<close>

fun upper_check :: "pyval \<Rightarrow> error + unit" where
  "upper_check (PStr s) = Inr ()"
| "upper_check v = Inl AttributeError"

text \<open>
  \<^verbatim>\<open>str.isspace\<close>, \<^verbatim>\<open>str.lower\<close> and \<^verbatim>\<open>str.strip()\<close> on code points below 256:
  the white space is TAB..CR, FS..US, SPACE, NEL and NBSP; the upper-case letters are
  A..Z and the Latin-1 letters 192..222 without the multiplication sign 215, each 32
  below its lower-case letter.
\<close>

definition py_isspace :: "char \<Rightarrow> bool" where
  "py_isspace c =
     (let n = (of_char c :: nat)
      in (9 \<le> n \<and> n \<le> 13) \<or> (28 \<le> n \<and> n \<le> 32) \<or> n = 133 \<or> n = 160)"

definition py_lower_char :: "char \<Rightarrow> char" where
  "py_lower_char c =
     (let n = (of_char c :: nat)
      in if (65 \<le> n \<and> n \<le> 90) \<or> (192 \<le> n \<and> n \<le> 222 \<and> n \<noteq> 215)
         then char_of (n + 32) else c)"

definition lower :: "string \<Rightarrow> string" where
  "lower s = map py_lower_char s"

definition strip :: "string \<Rightarrow> string" where
  "strip s = rev (dropWhile py_isspace (rev (dropWhile py_isspace s)))"

text \<open>\<^verbatim>\<open>sub in s\<close> on strings: \<^verbatim>\<open>sub\<close> occurs in \<^verbatim>\<open>s\<close> as a contiguous piece.\<close>

fun str_in :: "string \<Rightarrow> string \<Rightarrow> bool" where
  "str_in sub [] = (sub = [])"
| "str_in sub (c # cs) = (prefix sub (c # cs) \<or> str_in sub cs)"

section \<open>The confirmation tool\<close>

text \<open>
  The arguments of \<^verbatim>\<open>confirm_transaction\<close>, typed as its signature declares them
  (the amount as its text).
\<close>

record confirm_args =
  transaction_id :: string
  amount :: string
  currency :: string
  transaction_type :: string
  recipient :: string
  risk_level :: string
  risk_factors :: "string list"
  reviewer_name :: string

text \<open>
  An \<^verbatim>\<open>InputRequiredEvent\<close>: \<open>shown\<close> holds the values its prefix text is rendered
  from (the alert text is only printed), \<open>user_name\<close> the reviewer it is addressed to.
  A \<^verbatim>\<open>HumanResponseEvent\<close> carries the raw answer and the user name.
\<close>

record input_required =
  shown :: confirm_args
  user_name :: string

record human_response =
  response :: string
  responder :: string

text \<open>
  The world the program runs in: the lines the reviewer types (\<^verbatim>\<open>input()\<close> takes the
  next one and raises EOFError when none is left; on a terminal that stays open it blocks
  instead, and the program does not continue either), the events written to the stream so
  far, and the clock \<^verbatim>\<open>datetime.now().isoformat()\<close> reads, with the number of readings.
\<close>

record world =
  stdin :: "string list"
  stream :: "input_required list"
  clock :: "nat \<Rightarrow> string"
  ticks :: nat

definition now :: "world \<Rightarrow> string \<times> world" where
  "now w = (clock w (ticks w), w\<lparr>ticks := Suc (ticks w)\<rparr>)"

definition input_line :: "world \<Rightarrow> (error + string) \<times> world" where
  "input_line w =
     (case stdin w of
        [] \<Rightarrow> (Inl EOFError, w)
      | l # ls \<Rightarrow> (Inr l, w\<lparr>stdin := ls\<rparr>))"

definition write_event_to_stream :: "input_required \<Rightarrow> world \<Rightarrow> world" where
  "write_event_to_stream ev w = w\<lparr>stream := stream w @ [ev]\<rparr>"

text \<open>
  The body of main's \<^verbatim>\<open>async for event in handler.stream_events()\<close> for an
  \<^verbatim>\<open>InputRequiredEvent\<close> (lines 342-350): read a line and send it back as a
  \<^verbatim>\<open>HumanResponseEvent\<close> under the event's own user name.
\<close>

definition answer_event :: "input_required \<Rightarrow> world \<Rightarrow> (error + human_response) \<times> world" where
  "answer_event ev w =
     (case input_line w of
        (Inl e, w') \<Rightarrow> (Inl e, w')
      | (Inr l, w') \<Rightarrow> (Inr \<lparr>response = l, responder = user_name ev\<rparr>, w'))"

text \<open>Lines 253-260: the decision on the response text.\<close>

definition normalize :: "string \<Rightarrow> string" where
  "normalize raw = lower (strip raw)"

definition approved_message :: "confirm_args \<Rightarrow> string" where
  "approved_message a =
     ''Transaction '' @ transaction_id a @ '' for '' @ amount a @ '' '' @ currency a
       @ '' has been approved by '' @ reviewer_name a @ ''.''"

definition investigate_message :: "confirm_args \<Rightarrow> string" where
  "investigate_message a =
     ''Transaction '' @ transaction_id a @ '' has been marked for further investigation.''"

definition rejected_message :: "confirm_args \<Rightarrow> string" where
  "rejected_message a =
     ''Transaction '' @ transaction_id a @ '' has been rejected by '' @ reviewer_name a @ ''.''"

definition decide :: "confirm_args \<Rightarrow> string \<Rightarrow> string" where
  "decide a raw =
     (let user_response = normalize raw
      in if user_response = ''yes'' then approved_message a
         else if user_response = ''investigate'' then investigate_message a
         else rejected_message a)"

text \<open>
  \<^verbatim>\<open>confirm_transaction\<close>: write the event to the stream, wait for the
  \<^verbatim>\<open>HumanResponseEvent\<close> whose user name is the reviewer's, decide on its text. The
  event loop of main answers the event; an answer under another user name would not
  satisfy the requirement of \<^verbatim>\<open>wait_for_event\<close>.
\<close>

definition confirm_transaction :: "confirm_args \<Rightarrow> world \<Rightarrow> (error + string) \<times> world" where
  "confirm_transaction a w =
     (let ev = \<lparr>shown = a, user_name = reviewer_name a\<rparr>;
          w1 = write_event_to_stream ev w
      in case answer_event ev w1 of
           (Inl e, w2) \<Rightarrow> (Inl e, w2)
         | (Inr r, w2) \<Rightarrow>
             if responder r = reviewer_name a then (Inr (decide a (response r)), w2)
             else (Inl NoMatchingEvent, w2))"

text \<open>
  The agent workflow is built by the library from \<^verbatim>\<open>confirm_transaction\<close>, a language
  model and the system prompt; what it does is not in this source. It is a parameter of the
  model: an agent either ends with its final response or calls the tool and goes on from
  the tool's result.
\<close>

datatype agent =
    Reply string
  | CallConfirm confirm_args "string \<Rightarrow> agent"

primrec run_agent :: "agent \<Rightarrow> world \<Rightarrow> (error + string) \<times> world" where
  "run_agent (Reply s) = (\<lambda>w. (Inr s, w))"
| "run_agent (CallConfirm a k) =
     (\<lambda>w. case confirm_transaction a w of
             (Inl e, w') \<Rightarrow> (Inl e, w')
           | (Inr r, w') \<Rightarrow> run_agent (k r) w')"

section \<open>Mock data\<close>

definition bindE :: "error + 'a \<Rightarrow> ('a \<Rightarrow> error + 'b) \<Rightarrow> error + 'b" where
  "bindE m f = (case m of Inl e \<Rightarrow> Inl e | Inr x \<Rightarrow> f x)"

text \<open>Reading \<^verbatim>\<open>d[k]\<close> for each key in turn: the first missing key raises.\<close>

fun require :: "pydict \<Rightarrow> string list \<Rightarrow> error + unit" where
  "require d [] = Inr ()"
| "require d (k # ks) = bindE (getitem d k) (\<lambda>_. require d ks)"

definition get_mock_transactions :: "world \<Rightarrow> pydict list \<times> world" where
  "get_mock_transactions w =
     (let (ts1, w1) = now w;
          (ts2, w2) = now w1
      in ([map_of
            [(''transaction_id'', PStr ''TRX-001''),
             (''account_id'', PStr ''ACC-12345''),
             (''transaction_type'', PStr ''transfer''),
             (''amount'', PFloat ''1200.0''),
             (''currency'', PStr ''USD''),
             (''recipient'', PStr ''Jane Smith''),
             (''recipient_account'', PStr ''ACC-67890''),
             (''timestamp'', PStr ts1),
             (''location'', PStr ''New York, USA''),
             (''ip_address'', PStr ''192.168.1.1''),
             (''device_id'', PStr ''DEVICE-001''),
             (''risk_level'', PStr ''low''),
             (''risk_factors'', PList []),
             (''approved'', PBool False),
             (''approved_by'', PNone),
             (''approval_date'', PNone)],
          map_of
            [(''transaction_id'', PStr ''TRX-002''),
             (''account_id'', PStr ''ACC-12345''),
             (''transaction_type'', PStr ''wire''),
             (''amount'', PFloat ''25000.0''),
             (''currency'', PStr ''USD''),
             (''recipient'', PStr ''Acme Corp''),
             (''recipient_account'', PStr ''ACC-99999''),
             (''timestamp'', PStr ts2),
             (''location'', PStr ''Lagos, Nigeria''),
             (''ip_address'', PStr ''203.0.113.42''),
             (''device_id'', PStr ''DEVICE-002''),
             (''risk_level'', PStr ''high''),
             (''risk_factors'',
                PList [PStr ''Unusual destination country'',
                       PStr ''Amount exceeds typical transaction'',
                       PStr ''First-time recipient'',
                       PStr ''Unusual time of day'']),
             (''approved'', PBool False),
             (''approved_by'', PNone),
             (''approval_date'', PNone)]], w2))"

definition get_mock_account :: pydict where
  "get_mock_account =
     map_of
       [(''account_id'', PStr ''ACC-12345''),
        (''customer_name'', PStr ''John Doe''),
        (''account_type'', PStr ''Checking''),
        (''balance'', PFloat ''35000.0''),
        (''currency'', PStr ''USD''),
        (''daily_limit'', PFloat ''10000.0''),
        (''country'', PStr ''United States''),
        (''usual_countries'', PList [PStr ''United States'', PStr ''Canada'']),
        (''usual_transaction_amounts'', PList [PFloat ''100.0'', PFloat ''500.0'', PFloat ''1000.0'']),
        (''usual_recipients'', PList [PStr ''Jane Smith'', PStr ''Bob Johnson'', PStr ''Local Utility Co'']),
        (''transaction_history_summary'',
           PStr (''Regular payroll deposits. Typical transfers to family members. ''
                 @ ''Regular payments for utilities and subscriptions. ''
                 @ ''No international transfers in the past 6 months.''))]"

section \<open>Risk analysis\<close>

text \<open>
  \<^verbatim>\<open>analyze_transaction_risk(llm, transaction, account)\<close>. The f-string of the prompt
  is evaluated although the call of the language model is commented out, so every key it
  reads must be there (lines 154-191). The verdict is then the mock of lines 197-208: high
  for a transaction that carries the level \<^verbatim>\<open>'high'\<close>, low for every other one.
\<close>

definition high_risk_explanation :: string where
  "high_risk_explanation =
     ''This transaction shows multiple risk factors including an unusual destination ''
     @ ''country (Nigeria), an amount significantly higher than typical transactions, ''
     @ ''and a first-time recipient. The transaction amount of $25,000 exceeds the usual ''
     @ ''transaction pattern and is being sent to a country not in the list of usual ''
     @ ''countries for this account.''"

definition low_risk_explanation :: string where
  "low_risk_explanation =
     ''This transaction appears to be normal based on the account history and ''
     @ ''transaction patterns. The amount is within typical ranges, the recipient is ''
     @ ''known, and the location matches the account holder'' @ [CHR 0x27]
     @ ''s usual activity area.''"

definition analyze_transaction_risk :: "pydict \<Rightarrow> pydict \<Rightarrow> error + pydict" where
  "analyze_transaction_risk transaction account =
     bindE (require transaction
              [''transaction_id'', ''transaction_type'', ''amount'', ''currency'', ''timestamp''])
       (\<lambda>_.
     bindE (require account
              [''account_id'', ''customer_name'', ''account_type'', ''balance'', ''currency'',
               ''daily_limit'', ''country''])
       (\<lambda>_.
     bindE (getitem account ''usual_countries'') (\<lambda>uc. bindE (join_check uc) (\<lambda>_.
     bindE (getitem account ''usual_transaction_amounts'') (\<lambda>ua. bindE (iter_check ua) (\<lambda>_.
     bindE (getitem account ''usual_recipients'') (\<lambda>ur. bindE (join_check ur) (\<lambda>_.
     bindE (getitem account ''transaction_history_summary'') (\<lambda>_.
     bindE (getitem transaction ''risk_level'') (\<lambda>level.
       if level = PStr ''high'' then
         bindE (getitem transaction ''risk_factors'') (\<lambda>factors.
           Inr (map_of
                 [(''risk_level'', PStr ''high''),
                  (''risk_factors'', factors),
                  (''risk_explanation'', PStr high_risk_explanation)]))
       else
         Inr (map_of
               [(''risk_level'', PStr ''low''),
                (''risk_factors'', PList []),
                (''risk_explanation'', PStr low_risk_explanation)])))))))))))"

section \<open>The loop of main\<close>

text \<open>
  Lines 297-310 for one transaction: the prints read four keys, the transaction is
  analysed, the verdict's level and factors are stored in it, and both are printed.
\<close>

definition assess :: "pydict \<Rightarrow> pydict \<Rightarrow> error + pydict" where
  "assess account transaction =
     bindE (require transaction [''transaction_id'', ''transaction_type'', ''amount'', ''currency''])
       (\<lambda>_.
     bindE (analyze_transaction_risk transaction account) (\<lambda>risk_analysis.
     bindE (getitem risk_analysis ''risk_level'') (\<lambda>level.
     bindE (getitem risk_analysis ''risk_factors'') (\<lambda>factors.
       let t1 = transaction(''risk_level'' \<mapsto> level, ''risk_factors'' \<mapsto> factors)
       in bindE (upper_check level) (\<lambda>_.
          bindE (if truthy factors then join_check factors else Inr ()) (\<lambda>_.
          Inr t1))))))"

text \<open>Lines 315-317 and 358-360: the two places that write the disposition fields.\<close>

definition auto_approve :: "pydict \<Rightarrow> string \<Rightarrow> pydict" where
  "auto_approve transaction ts =
     transaction(''approved'' \<mapsto> PBool True,
                 ''approved_by'' \<mapsto> PStr ''Auto-approval System'',
                 ''approval_date'' \<mapsto> PStr ts)"

definition reviewer_approve :: "pydict \<Rightarrow> string \<Rightarrow> string \<Rightarrow> pydict" where
  "reviewer_approve transaction reviewer ts =
     transaction(''approved'' \<mapsto> PBool True,
                 ''approved_by'' \<mapsto> PStr reviewer,
                 ''approval_date'' \<mapsto> PStr ts)"

text \<open>
  The arguments of \<^verbatim>\<open>workflow.run\<close> (lines 325-337): the user message reads the type,
  the amount and the currency, then the context dictionary is built. The workflow gets the
  context dictionary; the user message is text rendered from entries of the same
  transaction.
\<close>

definition context_dict :: "pydict \<Rightarrow> string \<Rightarrow> error + pydict" where
  "context_dict transaction reviewer =
     bindE (require transaction [''transaction_type'', ''amount'', ''currency'']) (\<lambda>_.
     bindE (getitem transaction ''transaction_id'') (\<lambda>tid.
     bindE (getitem transaction ''amount'') (\<lambda>amt.
     bindE (getitem transaction ''currency'') (\<lambda>cur.
     bindE (getitem transaction ''transaction_type'') (\<lambda>ty.
     bindE (getitem transaction ''risk_level'') (\<lambda>level.
     bindE (getitem transaction ''risk_factors'') (\<lambda>factors.
       Inr (map_of
             [(''transaction_id'', tid),
              (''amount'', amt),
              (''currency'', cur),
              (''transaction_type'', ty),
              (''recipient'', get_default transaction ''recipient'' (PStr ''Unknown'')),
              (''risk_level'', level),
              (''risk_factors'', factors),
              (''reviewer_name'', PStr reviewer)]))))))))"

text \<open>
  Lines 312-360 for one assessed transaction: the levels low and medium are approved
  automatically; every other level runs the workflow, and the transaction is approved in
  the reviewer's name when the workflow's final response, in lower case, contains
  \<^verbatim>\<open>approved\<close>.
\<close>

definition dispose ::
  "(pydict \<Rightarrow> agent) \<Rightarrow> string \<Rightarrow> pydict \<Rightarrow> world \<Rightarrow> (error + pydict) \<times> world" where
  "dispose workflow reviewer transaction w =
     (case getitem transaction ''risk_level'' of
        Inl e \<Rightarrow> (Inl e, w)
      | Inr level \<Rightarrow>
          if level = PStr ''low'' \<or> level = PStr ''medium'' then
            (let (ts, w1) = now w;
                 t1 = auto_approve transaction ts
             in case getitem t1 ''transaction_id'' of
                  Inl e \<Rightarrow> (Inl e, w1)
                | Inr _ \<Rightarrow> (Inr t1, w1))
          else
            (case context_dict transaction reviewer of
               Inl e \<Rightarrow> (Inl e, w)
             | Inr ctx \<Rightarrow>
                 (case run_agent (workflow ctx) w of
                    (Inl e, w1) \<Rightarrow> (Inl e, w1)
                  | (Inr resp, w1) \<Rightarrow>
                      if str_in ''approved'' (lower resp) then
                        (let (ts, w2) = now w1
                         in (Inr (reviewer_approve transaction reviewer ts), w2))
                      else (Inr transaction, w1))))"

definition process_transaction ::
  "(pydict \<Rightarrow> agent) \<Rightarrow> string \<Rightarrow> pydict \<Rightarrow> pydict \<Rightarrow> world \<Rightarrow> (error + pydict) \<times> world" where
  "process_transaction workflow reviewer account transaction w =
     (case assess account transaction of
        Inl e \<Rightarrow> (Inl e, w)
      | Inr t1 \<Rightarrow> dispose workflow reviewer t1 w)"

fun process_all ::
  "(pydict \<Rightarrow> agent) \<Rightarrow> string \<Rightarrow> pydict \<Rightarrow> pydict list \<Rightarrow> world
     \<Rightarrow> (error + pydict list) \<times> world" where
  "process_all workflow reviewer account [] w = (Inr [], w)"
| "process_all workflow reviewer account (t # ts) w =
     (case process_transaction workflow reviewer account t w of
        (Inl e, w1) \<Rightarrow> (Inl e, w1)
      | (Inr t1, w1) \<Rightarrow>
          (case process_all workflow reviewer account ts w1 of
             (Inl e, w2) \<Rightarrow> (Inl e, w2)
           | (Inr ts1, w2) \<Rightarrow> (Inr (t1 # ts1), w2)))"

section \<open>The summary\<close>

text \<open>
  Lines 364-372: the status of a transaction in the summary is APPROVED or REJECTED, and
  the approver and the approval date are shown for an approved transaction only.
\<close>

definition final_status :: "pydict \<Rightarrow> string" where
  "final_status transaction =
     (if truthy (get_default transaction ''approved'' (PBool False))
      then ''APPROVED'' else ''REJECTED'')"

record summary_entry =
  entry_id :: pyval
  entry_type :: pyval
  entry_status :: string
  entry_risk :: pyval
  entry_approval :: "(pyval \<times> pyval) option"

definition summary_of :: "pydict \<Rightarrow> error + summary_entry" where
  "summary_of transaction =
     bindE (getitem transaction ''transaction_id'') (\<lambda>tid.
     bindE (getitem transaction ''transaction_type'') (\<lambda>ty.
     bindE (require transaction [''amount'', ''currency'']) (\<lambda>_.
     bindE (getitem transaction ''risk_level'') (\<lambda>level.
     bindE (upper_check level) (\<lambda>_.
       Inr \<lparr>entry_id = tid, entry_type = ty,
            entry_status = final_status transaction,
            entry_risk = level,
            entry_approval =
              (if truthy (get_default transaction ''approved'' (PBool False))
               then Some (get_default transaction ''approved_by'' (PStr ''Unknown''),
                          get_default transaction ''approval_date'' (PStr ''Unknown''))
               else None)\<rparr>)))))"

fun summary :: "pydict list \<Rightarrow> error + summary_entry list" where
  "summary [] = Inr []"
| "summary (t # ts) =
     bindE (summary_of t) (\<lambda>e. bindE (summary ts) (\<lambda>es. Inr (e # es)))"

definition main :: "(pydict \<Rightarrow> agent) \<Rightarrow> world \<Rightarrow> (error + summary_entry list) \<times> world" where
  "main workflow w =
     (let (transactions, w1) = get_mock_transactions w;
          account = get_mock_account;
          reviewer = ''Security Analyst Smith''
      in case process_all workflow reviewer account transactions w1 of
           (Inl e, w2) \<Rightarrow> (Inl e, w2)
         | (Inr ts, w2) \<Rightarrow> (summary ts, w2))"

text \<open>
  A workflow that does what the system prompt of \<^verbatim>\<open>create_workflow\<close> asks for: it
  calls \<^verbatim>\<open>confirm_transaction\<close> once, with the entries of the context dictionary, and
  gives the tool's result as its final response.
\<close>

definition text_of :: "pydict \<Rightarrow> string \<Rightarrow> string" where
  "text_of d k = (case d k of Some (PStr s) \<Rightarrow> s | Some (PFloat r) \<Rightarrow> r | _ \<Rightarrow> [])"

definition texts_of :: "pydict \<Rightarrow> string \<Rightarrow> string list" where
  "texts_of d k =
     (case d k of
        Some (PList xs) \<Rightarrow> map (\<lambda>v. case v of PStr s \<Rightarrow> s | _ \<Rightarrow> []) xs
      | _ \<Rightarrow> [])"

definition args_of :: "pydict \<Rightarrow> confirm_args" where
  "args_of ctx =
     \<lparr>transaction_id = text_of ctx ''transaction_id'',
      amount = text_of ctx ''amount'',
      currency = text_of ctx ''currency'',
      transaction_type = text_of ctx ''transaction_type'',
      recipient = text_of ctx ''recipient'',
      risk_level = text_of ctx ''risk_level'',
      risk_factors = texts_of ctx ''risk_factors'',
      reviewer_name = text_of ctx ''reviewer_name''\<rparr>"

definition relay_workflow :: "pydict \<Rightarrow> agent" where
  "relay_workflow ctx = CallConfirm (args_of ctx) Reply"

section \<open>Sample runs\<close>

text \<open>
  A world with the given lines on standard input, and variants of the mock wire transfer
  TRX-002: one whose identifier contains the word approved, one that carries the level
  critical, one that carries the level medium, and one without a timestamp.
\<close>

definition demo_world :: "string list \<Rightarrow> world" where
  "demo_world lines =
     \<lparr>stdin = lines, stream = [], clock = (\<lambda>n. ''2025-01-01T09:00:00''), ticks = 0\<rparr>"

definition mock_wire :: pydict where
  "mock_wire = fst (get_mock_transactions (demo_world [])) ! 1"

definition preapproved_wire :: pydict where
  "preapproved_wire = mock_wire(''transaction_id'' \<mapsto> PStr ''PREAPPROVED-7'')"

definition critical_wire :: pydict where
  "critical_wire = mock_wire(''risk_level'' \<mapsto> PStr ''critical'')"

definition medium_wire :: pydict where
  "medium_wire = mock_wire(''risk_level'' \<mapsto> PStr ''medium'')"

definition undated_wire :: pydict where
  "undated_wire = mock_wire(''timestamp'' := None)"

definition wire_context :: pydict where
  "wire_context = projr (context_dict mock_wire ''Security Analyst Smith'')"

text \<open>
  The mock transfer TRX-001, and three more workflows an agent may turn out to be: one that
  gives its final response without calling the tool, one that calls the tool and gives a
  response in its own words, and one that addresses the prompt to another reviewer.
\<close>

definition mock_transfer :: pydict where
  "mock_transfer = fst (get_mock_transactions (demo_world [])) ! 0"


definition paraphrasing_workflow :: "pydict \<Rightarrow> agent" where
  "paraphrasing_workflow ctx =
     CallConfirm (args_of ctx) (\<lambda>result. Reply ''The reviewer has authorised the transfer.'')"

definition risk_desk_workflow :: "pydict \<Rightarrow> agent" where
  "risk_desk_workflow ctx = CallConfirm ((args_of ctx)\<lparr>reviewer_name := ''Risk Desk''\<rparr>) Reply"

section \<open>Facts about strings\<close>

lemma str_in_sublist: "str_in sub s = sublist sub s"
  by (induction s) (auto simp: sublist_Cons_right)

lemma lower_append: "lower (a @ b) = lower a @ lower b"
  by (simp add: lower_def)

text \<open>
  A character that does not occur in \<open>sub\<close> separates the text: an occurrence of
  \<open>sub\<close> lies wholly before it or wholly after it.
\<close>

lemma sublist_split_at:
  assumes "c \<notin> set sub"
  shows "sublist sub (xs @ c # ys) \<longleftrightarrow> sublist sub xs \<or> sublist sub ys"
proof
  assume "sublist sub (xs @ c # ys)"
  then obtain ps ss where eq: "xs @ c # ys = ps @ sub @ ss" by (auto simp: sublist_def)
  from eq consider us where "xs = ps @ us" "us @ c # ys = sub @ ss"
    | us where "xs @ us = ps" "c # ys = us @ sub @ ss"
    by (auto simp: append_eq_append_conv2)
  then show "sublist sub xs \<or> sublist sub ys"
  proof cases
    case 1
    from 1(2) consider vs where "us = sub @ vs" | vs where "us @ vs = sub" "c # ys = vs @ ss"
      by (auto simp: append_eq_append_conv2)
    then show ?thesis
    proof cases
      case 1
      with \<open>xs = ps @ us\<close> have "xs = ps @ sub @ vs" by simp
      then show ?thesis by (simp only: sublist_appendI simp_thms)
    next
      case 2
      show ?thesis
      proof (cases vs)
        case Nil
        with 2 \<open>xs = ps @ us\<close> have "xs = ps @ sub" by simp
        then show ?thesis by (simp only: sublist_append_leftI simp_thms)
      next
        case (Cons v vs')
        with 2 have "c \<in> set sub" by auto
        with assms show ?thesis by simp
      qed
    qed
  next
    case 2
    show ?thesis
    proof (cases us)
      case Nil
      with 2 have "c # ys = sub @ ss" by simp
      with assms have "sub = []" by (cases sub) auto
      then show ?thesis by simp
    next
      case (Cons u us')
      with 2 have "ys = us' @ sub @ ss" by simp
      then show ?thesis by (simp only: sublist_appendI simp_thms)
    qed
  qed
next
  assume "sublist sub xs \<or> sublist sub ys"
  then show "sublist sub (xs @ c # ys)"
  proof
    assume "sublist sub xs"
    then obtain ps ss where "xs = ps @ sub @ ss" by (auto simp: sublist_def)
    then have "xs @ c # ys = ps @ sub @ (ss @ c # ys)" by simp
    then show ?thesis unfolding sublist_def by blast
  next
    assume "sublist sub ys"
    then obtain ps ss where "ys = ps @ sub @ ss" by (auto simp: sublist_def)
    then have "xs @ c # ys = (xs @ c # ps) @ sub @ ss" by simp
    then show ?thesis unfolding sublist_def by blast
  qed
qed

lemma str_in_split_sep:
  "c \<notin> set sub \<Longrightarrow> str_in sub (xs @ [c] @ ys) \<longleftrightarrow> str_in sub xs \<or> str_in sub ys"
  using sublist_split_at [of c sub xs ys] by (simp add: str_in_sublist)

lemma str_in_appendL: "str_in sub a \<Longrightarrow> str_in sub (a @ b)"
  by (auto simp: str_in_sublist sublist_def) (metis append.assoc)

lemma str_in_appendR: "str_in sub b \<Longrightarrow> str_in sub (a @ b)"
  by (auto simp: str_in_sublist sublist_def) (metis append.assoc)

lemma isspace_lower: "py_isspace c \<Longrightarrow> py_lower_char c = c"
  by (auto simp: py_isspace_def py_lower_char_def Let_def)

lemma strip_padded:
  assumes "list_all py_isspace pre" and "list_all py_isspace post" and "core \<noteq> []"
    and "\<not> py_isspace (hd core)" and "\<not> py_isspace (last core)"
  shows "strip (pre @ core @ post) = core"
proof -
  have "dropWhile py_isspace (pre @ core @ post) = dropWhile py_isspace (core @ post)"
    using assms(1) by (simp add: dropWhile_append2 list_all_iff)
  also have "\<dots> = core @ post" using assms(3,4) by (cases core) auto
  finally have 1: "dropWhile py_isspace (pre @ core @ post) = core @ post" .
  have "dropWhile py_isspace (rev post @ rev core) = dropWhile py_isspace (rev core)"
    using assms(2) by (intro dropWhile_append2) (simp add: list_all_iff)
  also have "\<dots> = rev core" using assms(3,5) by (cases core rule: rev_cases) auto
  finally show ?thesis by (simp add: strip_def 1)
qed

text \<open>
  White space around an answer and the case of its letters do not matter: a text that
  is \<open>target\<close> in lower case, padded with white space, normalizes to \<open>target\<close>.
\<close>

lemma normalize_padded:
  assumes "list_all py_isspace pre" and "list_all py_isspace post"
    and "lower core = target" and "target \<noteq> []"
    and "\<not> py_isspace (hd target)" and "\<not> py_isspace (last target)"
  shows "normalize (pre @ core @ post) = target"
proof -
  have ne: "core \<noteq> []" using assms(3,4) by (auto simp: lower_def)
  have "hd target = py_lower_char (hd core)"
    using assms(3) ne by (auto simp: lower_def hd_map)
  then have h: "\<not> py_isspace (hd core)"
    using assms(5) isspace_lower [of "hd core"] by auto
  have "last target = py_lower_char (last core)"
    using assms(3) ne by (auto simp: lower_def last_map)
  then have l: "\<not> py_isspace (last core)"
    using assms(6) isspace_lower [of "last core"] by auto
  show ?thesis
    using strip_padded [OF assms(1,2) ne h l] assms(3) by (simp add: normalize_def)
qed

lemma lower_yes_normalize:
  assumes "lower raw = ''yes''"
  shows "normalize raw = ''yes''"
proof -
  have "\<not> py_isspace (hd ''yes'')" "\<not> py_isspace (last ''yes'')" by code_simp+
  then have "normalize ([] @ raw @ []) = ''yes''"
    by (intro normalize_padded [OF _ _ assms]) simp_all
  then show ?thesis by simp
qed

section \<open>Facts about the messages of the tool\<close>

lemma lower_transaction: "lower ''Transaction '' = ''transaction'' @ [CHR '' '']"
  by code_simp

lemma lower_marked:
  "lower '' has been marked for further investigation.''
     = [CHR '' ''] @ ''has been marked for further investigation.''"
  by code_simp

lemma lower_rejected:
  "lower '' has been rejected by '' = [CHR '' ''] @ ''has been rejected by'' @ [CHR '' '']"
  by code_simp

lemma lower_dot: "lower ''.'' = [CHR ''.''] @ []"
  by code_simp

lemma approved_in_phrase: "str_in ''approved'' (lower '' has been approved by '')"
  by code_simp

lemma no_approved_in_fixed_parts:
  "\<not> str_in ''approved'' ''transaction''"
  "\<not> str_in ''approved'' ''has been marked for further investigation.''"
  "\<not> str_in ''approved'' ''has been rejected by''"
  "\<not> str_in ''approved'' []"
  by code_simp+

lemma approved_separators:
  "CHR '' '' \<notin> set ''approved''" "CHR ''.'' \<notin> set ''approved''"
  by simp_all

lemma approved_in_approved_message: "str_in ''approved'' (lower (approved_message a))"
  unfolding approved_message_def lower_append
  by (rule str_in_appendR, rule str_in_appendR, rule str_in_appendR, rule str_in_appendR,
      rule str_in_appendR, rule str_in_appendR, rule str_in_appendL, rule approved_in_phrase)

lemma approved_not_in_investigate_message:
  assumes "\<not> str_in ''approved'' (lower (transaction_id a))"
  shows "\<not> str_in ''approved'' (lower (investigate_message a))"
proof -
  have "lower (investigate_message a) =
      ''transaction'' @ [CHR '' ''] @ lower (transaction_id a) @ [CHR '' ''] @
         ''has been marked for further investigation.''"
    by (simp only: investigate_message_def lower_append lower_transaction lower_marked
        append_assoc)
  then show ?thesis
    using assms no_approved_in_fixed_parts
    by (simp only: str_in_split_sep [OF approved_separators(1)] simp_thms)
qed

lemma approved_not_in_rejected_message:
  assumes "\<not> str_in ''approved'' (lower (transaction_id a))"
    and "\<not> str_in ''approved'' (lower (reviewer_name a))"
  shows "\<not> str_in ''approved'' (lower (rejected_message a))"
proof -
  have "lower (rejected_message a) =
      ''transaction'' @ [CHR '' ''] @ lower (transaction_id a) @ [CHR '' ''] @
         ''has been rejected by'' @ [CHR '' ''] @ lower (reviewer_name a) @ [CHR ''.''] @ []"
    by (simp only: rejected_message_def lower_append lower_transaction lower_rejected
        lower_dot append_assoc)
  then show ?thesis
    using assms no_approved_in_fixed_parts
    by (simp only: str_in_split_sep [OF approved_separators(1)]
        str_in_split_sep [OF approved_separators(2)] simp_thms)
qed

section \<open>Facts about the tool and the loop\<close>

lemma confirm_answered:
  "stdin w = raw # rest \<Longrightarrow>
   confirm_transaction a w =
     (Inr (decide a raw),
      w\<lparr>stream := stream w @ [\<lparr>shown = a, user_name = reviewer_name a\<rparr>], stdin := rest\<rparr>)"
  by (simp add: confirm_transaction_def answer_event_def input_line_def
        write_event_to_stream_def)

lemma confirm_eof:
  "stdin w = [] \<Longrightarrow>
   confirm_transaction a w =
     (Inl EOFError, w\<lparr>stream := stream w @ [\<lparr>shown = a, user_name = reviewer_name a\<rparr>]\<rparr>)"
  by (simp add: confirm_transaction_def answer_event_def input_line_def
        write_event_to_stream_def)

lemma dispose_auto:
  assumes "t ''risk_level'' = Some (PStr l)" and "l = ''low'' \<or> l = ''medium''"
    and "t ''transaction_id'' = Some tid"
  shows "dispose workflow r t w =
    (Inr (auto_approve t (clock w (ticks w))), w\<lparr>ticks := Suc (ticks w)\<rparr>)"
  using assms by (auto simp: dispose_def getitem_def now_def auto_approve_def)

lemma dispose_review:
  assumes "t ''risk_level'' = Some lv" and "lv \<noteq> PStr ''low''" and "lv \<noteq> PStr ''medium''"
    and "context_dict t r = Inr ctx" and "workflow ctx = CallConfirm a Reply"
    and "stdin w = raw # rest"
  shows "dispose workflow r t w =
    (if str_in ''approved'' (lower (decide a raw))
     then (Inr (reviewer_approve t r (clock w (ticks w))),
           w\<lparr>stream := stream w @ [\<lparr>shown = a, user_name = reviewer_name a\<rparr>],
             stdin := rest, ticks := Suc (ticks w)\<rparr>)
     else (Inr t,
           w\<lparr>stream := stream w @ [\<lparr>shown = a, user_name = reviewer_name a\<rparr>],
             stdin := rest\<rparr>))"
  using assms by (simp add: dispose_def getitem_def confirm_answered now_def)

lemma dispose_eof:
  assumes "t ''risk_level'' = Some lv" and "lv \<noteq> PStr ''low''" and "lv \<noteq> PStr ''medium''"
    and "context_dict t r = Inr ctx" and "workflow ctx = CallConfirm a k"
    and "stdin w = []"
  shows "dispose workflow r t w =
    (Inl EOFError, w\<lparr>stream := stream w @ [\<lparr>shown = a, user_name = reviewer_name a\<rparr>]\<rparr>)"
  using assms by (simp add: dispose_def getitem_def confirm_eof)

text \<open>
  The prints of main read the same keys, in the same order, as the prompt of the analysis
  reads first: when the analysis raises, the assessment raises the same error.
\<close>

lemma analyze_fails_assess_fails:
  assumes "analyze_transaction_risk t acc = Inl e"
  shows "assess acc t = Inl e"
  using assms
  by (auto simp: assess_def analyze_transaction_risk_def bindE_def getitem_def
      split: sum.splits option.splits if_splits)

text \<open>
  A transaction whose level is neither low nor medium, reviewed by a workflow that calls
  the tool once and relays its result: one event is written to the stream and one line is
  read, whatever the answer is.
\<close>

lemma review_sends_one_prompt:
  assumes "t ''risk_level'' = Some lv" and "lv \<noteq> PStr ''low''" and "lv \<noteq> PStr ''medium''"
    and "context_dict t r = Inr ctx" and "workflow ctx = CallConfirm a Reply"
    and "stdin w = raw # rest"
  shows "stream (snd (dispose workflow r t w))
      = stream w @ [\<lparr>shown = a, user_name = reviewer_name a\<rparr>]
    \<and> stdin (snd (dispose workflow r t w)) = rest"
  using dispose_review [where workflow = workflow and ctx = ctx, OF assms] by simp

text \<open>
  Any answer other than yes and investigate leaves the transaction as it was, provided
  neither the transaction identifier nor the reviewer's name contains the word approved.
\<close>

lemma other_answer_leaves_unapproved:
  assumes "t ''risk_level'' = Some lv" and "lv \<noteq> PStr ''low''" and "lv \<noteq> PStr ''medium''"
    and "context_dict t r = Inr ctx" and "workflow ctx = CallConfirm a Reply"
    and "stdin w = raw # rest"
    and "normalize raw \<noteq> ''yes''" and "normalize raw \<noteq> ''investigate''"
    and "\<not> str_in ''approved'' (lower (transaction_id a))"
    and "\<not> str_in ''approved'' (lower (reviewer_name a))"
  shows "fst (dispose workflow r t w) = Inr t"
proof -
  have "decide a raw = rejected_message a"
    using assms(7,8) by (simp add: decide_def)
  then have "\<not> str_in ''approved'' (lower (decide a raw))"
    using approved_not_in_rejected_message [OF assms(9,10)] by simp
  then show ?thesis
    using dispose_review [where workflow = workflow and ctx = ctx, OF assms(1-6)] by simp
qed

section \<open>Facts about the sample transactions\<close>

lemma mock_wire_eval:
  "mock_wire ''risk_level'' = Some (PStr ''high'')"
  "mock_wire ''transaction_id'' = Some (PStr ''TRX-002'')"
  "mock_wire ''approved'' = Some (PBool False)"
  "mock_wire ''approved_by'' = Some PNone"
  "mock_wire ''approval_date'' = Some PNone"
  by (simp_all add: mock_wire_def get_mock_transactions_def now_def demo_world_def)

lemma medium_wire_eval:
  "medium_wire ''risk_level'' = Some (PStr ''medium'')"
  "medium_wire ''transaction_id'' = Some (PStr ''TRX-002'')"
  "medium_wire ''amount'' = Some (PFloat ''25000.0'')"
  by (simp_all add: medium_wire_def mock_wire_def get_mock_transactions_def now_def
      demo_world_def)

lemma wire_context_ok:
  "context_dict mock_wire ''Security Analyst Smith'' = Inr wire_context"
  by (simp add: wire_context_def context_dict_def bindE_def getitem_def
      mock_wire_def get_mock_transactions_def now_def demo_world_def)

lemma wire_args:
  "transaction_id (args_of wire_context) = ''TRX-002''"
  "reviewer_name (args_of wire_context) = ''Security Analyst Smith''"
  by (simp_all add: wire_context_def context_dict_def bindE_def getitem_def args_of_def
      text_of_def mock_wire_def get_mock_transactions_def now_def demo_world_def)

lemma mock_wire_assessed: "assess get_mock_account mock_wire = Inr mock_wire"
proof -
  have k: "mock_wire ''transaction_id'' = Some (PStr ''TRX-002'')"
    "mock_wire ''transaction_type'' = Some (PStr ''wire'')"
    "mock_wire ''amount'' = Some (PFloat ''25000.0'')"
    "mock_wire ''currency'' = Some (PStr ''USD'')"
    "mock_wire ''timestamp'' = Some (PStr ''2025-01-01T09:00:00'')"
    "mock_wire ''risk_level'' = Some (PStr ''high'')"
    "mock_wire ''risk_factors'' =
       Some (PList [PStr ''Unusual destination country'',
                    PStr ''Amount exceeds typical transaction'',
                    PStr ''First-time recipient'',
                    PStr ''Unusual time of day''])"
    by (simp_all add: mock_wire_def get_mock_transactions_def now_def demo_world_def)
  have "assess get_mock_account mock_wire =
      Inr (mock_wire(''risk_level'' \<mapsto> PStr ''high'',
             ''risk_factors'' \<mapsto> PList [PStr ''Unusual destination country'',
                    PStr ''Amount exceeds typical transaction'',
                    PStr ''First-time recipient'',
                    PStr ''Unusual time of day'']))"
    by (simp add: assess_def analyze_transaction_risk_def bindE_def getitem_def
        get_mock_account_def k)
  then show ?thesis by (simp add: map_upd_triv k)
qed


lemma critical_context_ok:
  "context_dict critical_wire ''Security Analyst Smith''
     = Inr (projr (context_dict critical_wire ''Security Analyst Smith''))"
  by (simp add: context_dict_def bindE_def getitem_def critical_wire_def
      mock_wire_def get_mock_transactions_def now_def demo_world_def)

text \<open>
  The analysis knows two verdicts: an assessed transaction has the level high or the level
  low, whatever level it carried before.
\<close>

lemma assessed_level_high_or_low:
  assumes "assess account t = Inr t1"
  shows "t1 ''risk_level'' = Some (PStr ''high'') \<or> t1 ''risk_level'' = Some (PStr ''low'')"
  using assms
  by (auto simp: assess_def analyze_transaction_risk_def bindE_def getitem_def
      split: sum.splits option.splits if_splits)

section \<open>The claims\<close>

text \<open>
  Claim C1: an answer that is neither yes nor investigate never approves the transaction.
  The tool keeps to it and answers that the transaction has been rejected, but main looks
  for the word approved anywhere in the final response, in lower case, and the response
  quotes the transaction identifier. For the wire transfer with the identifier
  PREAPPROVED-7 and the answer no, the assessment succeeds, the tool's result is the
  rejection message, and main marks the transaction approved by the reviewer.
\<close>

theorem rejected_answer_approves_transaction:
  "map_sum id (\<lambda>v. ()) (assess get_mock_account preapproved_wire) = Inr ()
   \<and> decide (args_of (projr (context_dict preapproved_wire ''Security Analyst Smith''))) ''no''
       = ''Transaction PREAPPROVED-7 has been rejected by Security Analyst Smith.''
   \<and> map_sum id (\<lambda>t. (final_status t, t ''approved'', t ''approved_by''))
       (fst (process_transaction relay_workflow ''Security Analyst Smith'' get_mock_account
              preapproved_wire (demo_world [''no''])))
       = Inr (''APPROVED'', Some (PBool True), Some (PStr ''Security Analyst Smith''))"
  by code_simp




text \<open>
  Claim C3, as stated: a failed risk evaluation puts the session into manual triage and
  sends it to human review. The wire transfer without a timestamp makes the analysis
  raise KeyError; the loop stops with that error, no event is written to the stream and
  the answer waiting on standard input is not read.
\<close>

theorem failed_evaluation_example:
  "map_sum id (\<lambda>v. ()) (analyze_transaction_risk undated_wire get_mock_account)
     = Inl (KeyError ''timestamp'')
   \<and> map_sum id (\<lambda>t. ())
       (fst (process_all relay_workflow ''Security Analyst Smith'' get_mock_account
              [undated_wire] (demo_world [''yes''])))
       = Inl (KeyError ''timestamp'')
   \<and> stream (snd (process_all relay_workflow ''Security Analyst Smith'' get_mock_account
                    [undated_wire] (demo_world [''yes'']))) = []
   \<and> stdin (snd (process_all relay_workflow ''Security Analyst Smith'' get_mock_account
                    [undated_wire] (demo_world [''yes'']))) = [''yes'']"
  by code_simp

text \<open>
  Claim C3, amended: when the risk analysis of a transaction raises, processing that
  transaction, and the whole loop with it, stops with the same error and leaves the world
  as it was: no prompt is sent, nothing is read, the clock is not read, so the transaction
  is neither reviewed nor approved. There is no manual-triage state.
\<close>

theorem failed_evaluation_aborts:
  assumes "analyze_transaction_risk transaction account = Inl e"
  shows "process_transaction workflow reviewer account transaction w = (Inl e, w)
    \<and> process_all workflow reviewer account (transaction # rest) w = (Inl e, w)"
  using analyze_fails_assess_fails [OF assms] by (simp add: process_transaction_def)

text \<open>Claim C3, amended, at the wire transfer without a timestamp.\<close>

theorem failed_evaluation_aborts_witness:
  "process_transaction relay_workflow ''Security Analyst Smith'' get_mock_account undated_wire
       (demo_world [''yes''])
     = (Inl (KeyError ''timestamp''), demo_world [''yes''])
   \<and> process_all relay_workflow ''Security Analyst Smith'' get_mock_account
       [undated_wire, mock_wire] (demo_world [''yes''])
     = (Inl (KeyError ''timestamp''), demo_world [''yes''])"
proof -
  have "analyze_transaction_risk undated_wire get_mock_account = Inl (KeyError ''timestamp'')"
    by (simp add: analyze_transaction_risk_def bindE_def getitem_def undated_wire_def
        mock_wire_def get_mock_transactions_def now_def demo_world_def)
  then show ?thesis by (rule failed_evaluation_aborts)
qed

text \<open>
  Claim C4, as stated: the answer investigate gives the final status
  FlaggedForInvestigation. The summary of main knows two statuses only; with the answer
  investigate the run of main reports the wire transfer TRX-002 as REJECTED.
\<close>

theorem investigate_reported_rejected_example:
  "map_sum id (map (\<lambda>e. (entry_id e, entry_status e, entry_approval e)))
     (fst (main relay_workflow (demo_world [''investigate''])))
   = Inr [(PStr ''TRX-001'', ''APPROVED'',
           Some (PStr ''Auto-approval System'', PStr ''2025-01-01T09:00:00'')),
          (PStr ''TRX-002'', ''REJECTED'', None)]"
  by code_simp

text \<open>
  Claim C4, amended: for a reviewed transaction that is not yet approved, whose
  identifier does not contain the word approved, and a workflow that calls the tool once
  and relays its result, an answer that normalizes to investigate leaves the transaction
  unchanged (so the approver and the approval date stay as they were) and the summary
  reports it as REJECTED; one event is written and one line read.
\<close>

theorem investigate_leaves_unapproved:
  assumes "transaction ''risk_level'' = Some level"
    and "level \<noteq> PStr ''low''" and "level \<noteq> PStr ''medium''"
    and "context_dict transaction reviewer = Inr ctx"
    and "workflow ctx = CallConfirm a Reply"
    and "stdin w = raw # rest"
    and "normalize raw = ''investigate''"
    and "\<not> str_in ''approved'' (lower (transaction_id a))"
    and "transaction ''approved'' = Some (PBool False)"
  shows "dispose workflow reviewer transaction w =
      (Inr transaction,
       w\<lparr>stream := stream w @ [\<lparr>shown = a, user_name = reviewer_name a\<rparr>], stdin := rest\<rparr>)
    \<and> final_status transaction = ''REJECTED''"
proof -
  have "decide a raw = investigate_message a"
    using assms(7) by (simp add: decide_def)
  then have "\<not> str_in ''approved'' (lower (decide a raw))"
    using approved_not_in_investigate_message [OF assms(8)] by simp
  then have "dispose workflow reviewer transaction w =
      (Inr transaction,
       w\<lparr>stream := stream w @ [\<lparr>shown = a, user_name = reviewer_name a\<rparr>], stdin := rest\<rparr>)"
    using dispose_review [where workflow = workflow and ctx = ctx, OF assms(1-6)] by simp
  moreover have "final_status transaction = ''REJECTED''"
    using assms(9) by (simp add: final_status_def get_default_def)
  ultimately show ?thesis by simp
qed

text \<open>Claim C4, amended, at the mock wire transfer and the answer Investigate.\<close>

theorem investigate_leaves_unapproved_witness:
  "normalize '' Investigate '' = ''investigate''
   \<and> fst (dispose relay_workflow ''Security Analyst Smith'' mock_wire
             (demo_world ['' Investigate ''])) = Inr mock_wire
   \<and> map user_name (stream (snd (dispose relay_workflow ''Security Analyst Smith'' mock_wire
             (demo_world ['' Investigate '']))))
       = [''Security Analyst Smith'']
   \<and> final_status mock_wire = ''REJECTED''
   \<and> mock_wire ''approved_by'' = Some PNone
   \<and> mock_wire ''approval_date'' = Some PNone"
proof -
  have n: "normalize '' Investigate '' = ''investigate''" by code_simp
  have c: "\<not> str_in ''approved'' (lower (transaction_id (args_of wire_context)))"
    by (simp add: wire_args) code_simp
  have l: "PStr ''high'' \<noteq> PStr ''low''" "PStr ''high'' \<noteq> PStr ''medium''" by simp_all
  have r: "relay_workflow wire_context = CallConfirm (args_of wire_context) Reply"
    by (simp add: relay_workflow_def)
  have s: "stdin (demo_world ['' Investigate '']) = '' Investigate '' # []"
    by (simp add: demo_world_def)
  show ?thesis
    using investigate_leaves_unapproved
      [where workflow = relay_workflow and ctx = wire_context,
       OF mock_wire_eval(1) l wire_context_ok r s n c mock_wire_eval(3)]
    by (simp add: n mock_wire_eval wire_args demo_world_def)
qed

text \<open>
  Claim C5, as stated: the answer yes gives the status Approved, and the approver recorded
  is the identity of the reviewer who responded. Both depend on the agent: a workflow that
  words its final response itself turns the answer yes on the mock wire transfer into
  REJECTED, and with a workflow that addresses the prompt to the Risk Desk the answer
  comes back under that name while main records its own reviewer as the approver.
\<close>

theorem yes_answer_example:
  "map_sum id final_status
     (fst (process_transaction paraphrasing_workflow ''Security Analyst Smith''
            get_mock_account mock_wire (demo_world [''yes''])))
     = Inr ''REJECTED''
   \<and> map user_name
       (stream (snd (process_transaction risk_desk_workflow ''Security Analyst Smith''
                      get_mock_account mock_wire (demo_world [''yes'']))))
     = [''Risk Desk'']
   \<and> map_sum id (\<lambda>t. (final_status t, t ''approved_by''))
       (fst (process_transaction risk_desk_workflow ''Security Analyst Smith''
              get_mock_account mock_wire (demo_world [''yes''])))
     = Inr (''APPROVED'', Some (PStr ''Security Analyst Smith''))"
  by code_simp

text \<open>
  Claim C5, amended: for a reviewed transaction and a workflow that calls the tool once
  and relays its result, an answer that is yes in any case of letters approves the
  transaction: its status is APPROVED, and the approver recorded is the reviewer name the
  loop of main was given, under whatever name the prompt was sent and answered.
\<close>

theorem yes_relayed_approves:
  assumes "transaction ''risk_level'' = Some level"
    and "level \<noteq> PStr ''low''" and "level \<noteq> PStr ''medium''"
    and "context_dict transaction reviewer = Inr ctx"
    and "workflow ctx = CallConfirm a Reply"
    and "stdin w = raw # rest"
    and "lower raw = ''yes''"
  shows "dispose workflow reviewer transaction w =
      (Inr (reviewer_approve transaction reviewer (clock w (ticks w))),
       w\<lparr>stream := stream w @ [\<lparr>shown = a, user_name = reviewer_name a\<rparr>],
         stdin := rest, ticks := Suc (ticks w)\<rparr>)
    \<and> final_status (reviewer_approve transaction reviewer (clock w (ticks w))) = ''APPROVED''
    \<and> reviewer_approve transaction reviewer (clock w (ticks w)) ''approved_by''
        = Some (PStr reviewer)"
proof -
  have "decide a raw = approved_message a"
    using lower_yes_normalize [OF assms(7)] by (simp add: decide_def)
  then have "str_in ''approved'' (lower (decide a raw))"
    using approved_in_approved_message [of a] by simp
  then have "dispose workflow reviewer transaction w =
      (Inr (reviewer_approve transaction reviewer (clock w (ticks w))),
       w\<lparr>stream := stream w @ [\<lparr>shown = a, user_name = reviewer_name a\<rparr>],
         stdin := rest, ticks := Suc (ticks w)\<rparr>)"
    using dispose_review [where workflow = workflow and ctx = ctx, OF assms(1-6)]
    by simp
  then show ?thesis
    by (simp add: final_status_def get_default_def reviewer_approve_def)
qed

text \<open>
  Claim C5, amended, at the wire transfer of level critical, the workflow that addresses
  the Risk Desk and the answer YES.
\<close>

theorem yes_relayed_approves_witness:
  "lower ''YES'' = ''yes''
   \<and> map_sum id (\<lambda>t. (final_status t, t ''approved_by'', t ''approval_date''))
       (fst (dispose risk_desk_workflow ''Security Analyst Smith'' critical_wire
               (demo_world [''YES''])))
     = Inr (''APPROVED'', Some (PStr ''Security Analyst Smith''),
            Some (PStr ''2025-01-01T09:00:00''))
   \<and> map user_name
       (stream (snd (dispose risk_desk_workflow ''Security Analyst Smith'' critical_wire
               (demo_world [''YES'']))))
     = [''Risk Desk'']"
proof -
  let ?ctx = "projr (context_dict critical_wire ''Security Analyst Smith'')"
  have y: "lower ''YES'' = ''yes''" by code_simp
  have lv: "critical_wire ''risk_level'' = Some (PStr ''critical'')"
    by (simp add: critical_wire_def)
  have l: "PStr ''critical'' \<noteq> PStr ''low''" "PStr ''critical'' \<noteq> PStr ''medium''"
    by simp_all
  have r: "risk_desk_workflow ?ctx
      = CallConfirm ((args_of ?ctx)\<lparr>reviewer_name := ''Risk Desk''\<rparr>) Reply"
    by (simp add: risk_desk_workflow_def)
  have s: "stdin (demo_world [''YES'']) = ''YES'' # []"
    by (simp add: demo_world_def)
  show ?thesis
    using yes_relayed_approves
      [where workflow = risk_desk_workflow and ctx = ?ctx,
       OF lv l critical_context_ok r s y]
    by (simp add: y demo_world_def reviewer_approve_def)
qed

text \<open>
  Claim C6, as stated: a transaction of level low or medium is approved with the approver
  auto-approval-system. The run of main records the approver of the low-risk transfer
  TRX-001 as Auto-approval System.
\<close>

theorem auto_approver_name_example:
  "map_sum id (map (\<lambda>e. (entry_id e, entry_risk e, entry_status e, entry_approval e)))
     (fst (main relay_workflow (demo_world [''yes''])))
   = Inr [(PStr ''TRX-001'', PStr ''low'', ''APPROVED'',
           Some (PStr ''Auto-approval System'', PStr ''2025-01-01T09:00:00'')),
          (PStr ''TRX-002'', PStr ''high'', ''APPROVED'',
           Some (PStr ''Security Analyst Smith'', PStr ''2025-01-01T09:00:00''))]
   \<and> PStr ''Auto-approval System'' \<noteq> PStr ''auto-approval-system''"
  by code_simp

text \<open>
  Claim C6, amended: an assessed transaction of level low or medium is approved, whatever
  the workflow is: its status is APPROVED, its approver is the text Auto-approval System,
  its approval date is the reading of the clock, no event is written to the stream and no
  line is read.
\<close>

theorem low_medium_auto_approved:
  assumes "transaction ''risk_level'' = Some (PStr level)"
    and "level = ''low'' \<or> level = ''medium''"
    and "transaction ''transaction_id'' = Some tid"
  shows "dispose workflow reviewer transaction w =
      (Inr (auto_approve transaction (clock w (ticks w))), w\<lparr>ticks := Suc (ticks w)\<rparr>)
    \<and> final_status (auto_approve transaction (clock w (ticks w))) = ''APPROVED''
    \<and> auto_approve transaction (clock w (ticks w)) ''approved_by''
        = Some (PStr ''Auto-approval System'')
    \<and> auto_approve transaction (clock w (ticks w)) ''approval_date''
        = Some (PStr (clock w (ticks w)))
    \<and> stream (snd (dispose workflow reviewer transaction w)) = stream w
    \<and> stdin (snd (dispose workflow reviewer transaction w)) = stdin w"
  using dispose_auto [OF assms, of workflow reviewer w]
  by (simp add: final_status_def get_default_def auto_approve_def)

text \<open>Claim C6, amended, at the wire transfer of level medium.\<close>

theorem low_medium_auto_approved_witness:
  "map_sum id (\<lambda>t. (final_status t, t ''approved_by'', t ''approval_date''))
     (fst (dispose relay_workflow ''Security Analyst Smith'' medium_wire (demo_world [''no''])))
     = Inr (''APPROVED'', Some (PStr ''Auto-approval System''),
            Some (PStr ''2025-01-01T09:00:00''))
   \<and> stream (snd (dispose relay_workflow ''Security Analyst Smith'' medium_wire
                    (demo_world [''no'']))) = []
   \<and> stdin (snd (dispose relay_workflow ''Security Analyst Smith'' medium_wire
                    (demo_world [''no'']))) = [''no'']"
proof -
  have m: "''medium'' = ''low'' \<or> ''medium'' = ''medium''" by simp
  show ?thesis
    using low_medium_auto_approved [OF medium_wire_eval(1) m medium_wire_eval(2),
        of relay_workflow "''Security Analyst Smith''" "demo_world [''no'']"]
    by (simp add: demo_world_def auto_approve_def)
qed

text \<open>
  Claim C7, as stated: when no answer arrives the wait times out and the transaction is
  rejected with the reason review-timeout. With no line on standard input the run of main
  ends in the error of \<^verbatim>\<open>input()\<close>: no summary and no status is produced, and the
  prompt to the reviewer is the last event of the stream.
\<close>

theorem no_answer_example:
  "fst (main relay_workflow (demo_world [])) = Inl EOFError
   \<and> map user_name (stream (snd (main relay_workflow (demo_world []))))
       = [''Security Analyst Smith'']"
  by code_simp

text \<open>
  Claim C7, amended: there is no deadline. When a transaction is assessed at a level
  other than low and medium, the workflow calls the tool and no line is left on standard
  input, the loop stops with EOFError after the event has been written to the stream: no
  disposition is recorded, for this transaction or for the ones after it.
\<close>

theorem no_answer_stops_at_prompt:
  assumes "assess account t0 = Inr transaction"
    and "transaction ''risk_level'' = Some level"
    and "level \<noteq> PStr ''low''" and "level \<noteq> PStr ''medium''"
    and "context_dict transaction reviewer = Inr ctx"
    and "workflow ctx = CallConfirm a k"
    and "stdin w = []"
  shows "process_all workflow reviewer account (t0 # rest) w =
      (Inl EOFError, w\<lparr>stream := stream w @ [\<lparr>shown = a, user_name = reviewer_name a\<rparr>]\<rparr>)"
  using dispose_eof [where workflow = workflow and ctx = ctx, OF assms(2-7)] assms(1)
  by (simp add: process_transaction_def)

text \<open>Claim C7, amended, at the mock wire transfer and an empty standard input.\<close>

theorem no_answer_stops_at_prompt_witness:
  "map_sum id (\<lambda>t. ()) (assess get_mock_account mock_wire) = Inr ()
   \<and> stdin (demo_world []) = []
   \<and> fst (process_all relay_workflow ''Security Analyst Smith'' get_mock_account
            [mock_wire, medium_wire] (demo_world [])) = Inl EOFError
   \<and> map user_name (stream (snd (process_all relay_workflow ''Security Analyst Smith''
            get_mock_account [mock_wire, medium_wire] (demo_world []))))
       = [''Security Analyst Smith'']"
proof -
  have l: "PStr ''high'' \<noteq> PStr ''low''" "PStr ''high'' \<noteq> PStr ''medium''" by simp_all
  have r: "relay_workflow wire_context = CallConfirm (args_of wire_context) Reply"
    by (simp add: relay_workflow_def)
  have s: "stdin (demo_world []) = []" by (simp add: demo_world_def)
  have p: "process_all relay_workflow ''Security Analyst Smith'' get_mock_account
            [mock_wire, medium_wire] (demo_world [])
      = (Inl EOFError,
         (demo_world [])\<lparr>stream := stream (demo_world []) @
            [\<lparr>shown = args_of wire_context,
              user_name = reviewer_name (args_of wire_context)\<rparr>]\<rparr>)"
    by (rule no_answer_stops_at_prompt
      [where workflow = relay_workflow and ctx = wire_context,
       OF mock_wire_assessed mock_wire_eval(1) l wire_context_ok r s])
  show ?thesis
    unfolding p mock_wire_assessed by (simp add: wire_args demo_world_def)
qed

text \<open>
  Claim C8, as stated: waiting for an answer suspends the waiting session only, and every
  other session can go on. The sessions run one after another: the mock transfer TRX-001
  alone is approved without any input, but placed behind the mock wire transfer, which
  waits for an answer that does not come, it is never processed (the clock is not read)
  and the loop ends in the error of \<^verbatim>\<open>input()\<close>.
\<close>

theorem waiting_session_example:
  "map_sum id final_status
     (fst (process_transaction relay_workflow ''Security Analyst Smith'' get_mock_account
            mock_transfer (demo_world [])))
     = Inr ''APPROVED''
   \<and> map_sum id (\<lambda>ts. ())
       (fst (process_all relay_workflow ''Security Analyst Smith'' get_mock_account
              [mock_wire, mock_transfer] (demo_world []))) = Inl EOFError
   \<and> ticks (snd (process_all relay_workflow ''Security Analyst Smith'' get_mock_account
            [mock_wire, mock_transfer] (demo_world []))) = 0"
  by code_simp

text \<open>
  Claim C8, amended: waiting for a reviewer's answer holds up the whole loop. When the
  first session waits (its level is neither low nor medium, the workflow calls the tool
  and no line is left on standard input), the sessions after it have no effect at all:
  the loop gives what it gives for the waiting session alone, the error of
  \<^verbatim>\<open>input()\<close>, and the clock has not been read for any approval.
\<close>

theorem waiting_blocks_later_sessions:
  assumes "assess account t0 = Inr transaction"
    and "transaction ''risk_level'' = Some level"
    and "level \<noteq> PStr ''low''" and "level \<noteq> PStr ''medium''"
    and "context_dict transaction reviewer = Inr ctx"
    and "workflow ctx = CallConfirm a k"
    and "stdin w = []"
  shows "process_all workflow reviewer account (t0 # rest) w
        = process_all workflow reviewer account [t0] w
    \<and> fst (process_all workflow reviewer account (t0 # rest) w) = Inl EOFError
    \<and> ticks (snd (process_all workflow reviewer account (t0 # rest) w)) = ticks w
    \<and> stdin (snd (process_all workflow reviewer account (t0 # rest) w)) = []"
  using dispose_eof [where workflow = workflow and ctx = ctx, OF assms(2-7)] assms(1,7)
  by (simp add: process_transaction_def)

text \<open>
  Claim C8, amended, at the mock wire transfer followed by the mock transfer, with an
  empty standard input.
\<close>

theorem waiting_blocks_later_sessions_witness:
  "stdin (demo_world []) = []
   \<and> process_all relay_workflow ''Security Analyst Smith'' get_mock_account
        [mock_wire, mock_transfer] (demo_world [])
     = process_all relay_workflow ''Security Analyst Smith'' get_mock_account
        [mock_wire] (demo_world [])
   \<and> fst (process_all relay_workflow ''Security Analyst Smith'' get_mock_account
        [mock_wire, mock_transfer] (demo_world [])) = Inl EOFError
   \<and> ticks (snd (process_all relay_workflow ''Security Analyst Smith'' get_mock_account
        [mock_wire, mock_transfer] (demo_world []))) = 0"
proof -
  have l: "PStr ''high'' \<noteq> PStr ''low''" "PStr ''high'' \<noteq> PStr ''medium''" by simp_all
  have r: "relay_workflow wire_context = CallConfirm (args_of wire_context) Reply"
    by (simp add: relay_workflow_def)
  have s: "stdin (demo_world []) = []" by (simp add: demo_world_def)
  have t: "ticks (demo_world []) = 0" by (simp add: demo_world_def)
  have p: "process_all relay_workflow ''Security Analyst Smith'' get_mock_account
        [mock_wire, mock_transfer] (demo_world [])
      = process_all relay_workflow ''Security Analyst Smith'' get_mock_account
        [mock_wire] (demo_world [])
    \<and> fst (process_all relay_workflow ''Security Analyst Smith'' get_mock_account
        [mock_wire, mock_transfer] (demo_world [])) = Inl EOFError
    \<and> ticks (snd (process_all relay_workflow ''Security Analyst Smith'' get_mock_account
        [mock_wire, mock_transfer] (demo_world []))) = ticks (demo_world [])
    \<and> stdin (snd (process_all relay_workflow ''Security Analyst Smith'' get_mock_account
        [mock_wire, mock_transfer] (demo_world []))) = []"
    by (rule waiting_blocks_later_sessions
      [where workflow = relay_workflow and ctx = wire_context,
       OF mock_wire_assessed mock_wire_eval(1) l wire_context_ok r s])
  show ?thesis
    using s p [unfolded t] by blast
qed

text \<open>
  Claim C9: the answer is stripped of surrounding white space and put in lower case
  before it is compared: when the normalized answer is yes the tool returns the approval
  message, when it is investigate the tool returns the investigation message.
\<close>

theorem normalized_answer_branches:
  assumes "stdin w = raw # rest"
  shows "(normalize raw = ''yes'' \<longrightarrow>
            fst (confirm_transaction a w) = Inr (approved_message a))
    \<and> (normalize raw = ''investigate'' \<longrightarrow>
            fst (confirm_transaction a w) = Inr (investigate_message a))
    \<and> normalize raw = lower (strip raw)"
  using confirm_answered [OF assms, of a] by (simp add: decide_def normalize_def)

text \<open>Claim C9 at the answers \<^verbatim>\<open>"  YES  "\<close> and \<^verbatim>\<open>" Investigate"\<close>.\<close>

theorem normalized_answer_branches_witness:
  "normalize ''  YES  '' = ''yes''
   \<and> fst (confirm_transaction (args_of wire_context) (demo_world [''  YES  '']))
       = Inr (approved_message (args_of wire_context))
   \<and> normalize '' Investigate'' = ''investigate''
   \<and> fst (confirm_transaction (args_of wire_context) (demo_world ['' Investigate'']))
       = Inr (investigate_message (args_of wire_context))"
proof -
  have y: "normalize ''  YES  '' = ''yes''" by code_simp
  have i: "normalize '' Investigate'' = ''investigate''" by code_simp
  have sy: "stdin (demo_world [''  YES  '']) = ''  YES  '' # []" by (simp add: demo_world_def)
  have si: "stdin (demo_world ['' Investigate'']) = '' Investigate'' # []"
    by (simp add: demo_world_def)
  show ?thesis
    using normalized_answer_branches [OF sy, of "args_of wire_context"]
      normalized_answer_branches [OF si, of "args_of wire_context"] y i
    by simp
qed

text \<open>
  Claim C10: the automatic approval of a transaction of level low or medium changes the
  entries approved, approved_by and approval_date only: every other key of the resulting
  transaction holds what it held before, and is missing if it was missing.
\<close>

theorem auto_approval_frame:
  assumes "transaction ''risk_level'' = Some (PStr level)"
    and "level = ''low'' \<or> level = ''medium''"
    and "dispose workflow reviewer transaction w = (Inr t', w')"
    and "k \<notin> {''approved'', ''approved_by'', ''approval_date''}"
  shows "t' k = transaction k"
  using assms
  by (auto simp: dispose_def getitem_def now_def auto_approve_def split: option.splits)

text \<open>Claim C10 at the wire transfer of level medium and its amount.\<close>

theorem auto_approval_frame_witness:
  "dispose relay_workflow ''Security Analyst Smith'' medium_wire (demo_world [])
     = (Inr (auto_approve medium_wire ''2025-01-01T09:00:00''), (demo_world [])\<lparr>ticks := 1\<rparr>)
   \<and> ''amount'' \<notin> {''approved'', ''approved_by'', ''approval_date''}
   \<and> auto_approve medium_wire ''2025-01-01T09:00:00'' ''amount'' = Some (PFloat ''25000.0'')
   \<and> medium_wire ''amount'' = Some (PFloat ''25000.0'')"
proof -
  have m: "''medium'' = ''low'' \<or> ''medium'' = ''medium''" by simp
  have d: "dispose relay_workflow ''Security Analyst Smith'' medium_wire (demo_world [])
     = (Inr (auto_approve medium_wire ''2025-01-01T09:00:00''), (demo_world [])\<lparr>ticks := 1\<rparr>)"
    using dispose_auto [OF medium_wire_eval(1) m medium_wire_eval(2),
        of relay_workflow "''Security Analyst Smith''" "demo_world []"]
    by (simp add: demo_world_def)
  have k: "''amount'' \<notin> {''approved'', ''approved_by'', ''approval_date''}" by simp
  show ?thesis
    using auto_approval_frame [OF medium_wire_eval(1) m d k] d k
    by (simp add: medium_wire_eval)
qed

end
